theory Spec2Isabelle
  imports Complex_Main
begin

section \<open>Values of the front end\<close>

text \<open>
  The campaign components are TypeScript/React. A JavaScript string is modelled as a
  \<^typ>\<open>string\<close>, one \<^typ>\<open>char\<close> per UTF-16 code unit, so that \<^const>\<open>length\<close>
  is the \<^verbatim>\<open>.length\<close> that the zod checks \<^verbatim>\<open>min\<close> and \<^verbatim>\<open>max\<close> read.
  An optional field (\<^verbatim>\<open>field?: string\<close>) is an \<^typ>\<open>string option\<close>, with
  \<^term>\<open>None\<close> for \<^verbatim>\<open>undefined\<close>.
\<close>

text \<open>Truthiness of an optional string: \<^verbatim>\<open>undefined\<close> and \<^verbatim>\<open>''\<close> are falsy.\<close>

definition truthy :: "string option \<Rightarrow> bool" where
  "truthy v = (case v of None \<Rightarrow> False | Some s \<Rightarrow> s \<noteq> [])"

text \<open>\<^verbatim>\<open>a || b\<close> on optional strings.\<close>

definition js_or :: "string option \<Rightarrow> string option \<Rightarrow> string option" where
  "js_or a b = (if truthy a then a else b)"

subsection \<open>Numbers with their special values\<close>

text \<open>
  A JavaScript number is a double: finite, \<^verbatim>\<open>Infinity\<close>, \<^verbatim>\<open>-Infinity\<close> or
  \<^verbatim>\<open>NaN\<close>. A finite number is the rational it denotes. The operations below follow
  the IEEE rules for the special values and give, on finite operands, the exact result;
  \<open>js_round\<close> further below rounds an exact result to the double that JavaScript
  returns. The sign of a zero is not kept: the only zero divisor that the components can
  meet is a difference of two equal time values, which is \<^verbatim>\<open>+0\<close>.
\<close>

datatype jsnum = Fin rat | PosInf | NegInf | NaN

fun js_sub :: "jsnum \<Rightarrow> jsnum \<Rightarrow> jsnum" where
  "js_sub NaN _ = NaN"
| "js_sub _ NaN = NaN"
| "js_sub (Fin a) (Fin b) = Fin (a - b)"
| "js_sub (Fin a) PosInf = NegInf"
| "js_sub (Fin a) NegInf = PosInf"
| "js_sub PosInf PosInf = NaN"
| "js_sub PosInf _ = PosInf"
| "js_sub NegInf NegInf = NaN"
| "js_sub NegInf _ = NegInf"

fun js_div :: "jsnum \<Rightarrow> jsnum \<Rightarrow> jsnum" where
  "js_div NaN _ = NaN"
| "js_div _ NaN = NaN"
| "js_div (Fin a) (Fin b) =
     (if b \<noteq> 0 then Fin (a / b)
      else if a > 0 then PosInf else if a < 0 then NegInf else NaN)"
| "js_div (Fin a) _ = Fin 0"
| "js_div PosInf (Fin b) = (if b \<ge> 0 then PosInf else NegInf)"
| "js_div NegInf (Fin b) = (if b \<ge> 0 then NegInf else PosInf)"
| "js_div _ _ = NaN"

fun js_mul :: "jsnum \<Rightarrow> jsnum \<Rightarrow> jsnum" where
  "js_mul NaN _ = NaN"
| "js_mul _ NaN = NaN"
| "js_mul (Fin a) (Fin b) = Fin (a * b)"
| "js_mul (Fin a) PosInf = (if a > 0 then PosInf else if a < 0 then NegInf else NaN)"
| "js_mul (Fin a) NegInf = (if a > 0 then NegInf else if a < 0 then PosInf else NaN)"
| "js_mul PosInf (Fin b) = (if b > 0 then PosInf else if b < 0 then NegInf else NaN)"
| "js_mul NegInf (Fin b) = (if b > 0 then NegInf else if b < 0 then PosInf else NaN)"
| "js_mul PosInf PosInf = PosInf"
| "js_mul NegInf NegInf = PosInf"
| "js_mul _ _ = NegInf"

text \<open>\<^verbatim>\<open>Math.min\<close> and \<^verbatim>\<open>Math.max\<close> of two numbers: \<^verbatim>\<open>NaN\<close> as soon as one is.\<close>

fun Math_min :: "jsnum \<Rightarrow> jsnum \<Rightarrow> jsnum" where
  "Math_min NaN _ = NaN"
| "Math_min _ NaN = NaN"
| "Math_min NegInf _ = NegInf"
| "Math_min _ NegInf = NegInf"
| "Math_min PosInf y = y"
| "Math_min x PosInf = x"
| "Math_min (Fin a) (Fin b) = Fin (min a b)"

fun Math_max :: "jsnum \<Rightarrow> jsnum \<Rightarrow> jsnum" where
  "Math_max NaN _ = NaN"
| "Math_max _ NaN = NaN"
| "Math_max PosInf _ = PosInf"
| "Math_max _ PosInf = PosInf"
| "Math_max NegInf y = y"
| "Math_max x NegInf = x"
| "Math_max (Fin a) (Fin b) = Fin (max a b)"

subsection \<open>Rounding to a double\<close>

text \<open>
  Rounding to the nearest, ties to even: \<open>round_half_even\<close> rounds a rational to an
  integer, \<open>bitlen\<close> is the number of binary digits of a positive integer, and
  \<open>ilog2\<close> the binary exponent \<open>\<lfloor>log\<^sub>2 a\<rfloor>\<close> of a positive rational.
\<close>

definition round_half_even :: "rat \<Rightarrow> int" where
  "round_half_even x =
     (let f = \<lfloor>x\<rfloor>; r = x - of_int f
      in if r < 1 / 2 then f else if r > 1 / 2 then f + 1 else if even f then f else f + 1)"

function bitlen :: "int \<Rightarrow> nat" where
  "bitlen n = (if n \<le> 0 then 0 else Suc (bitlen (n div 2)))"
  by auto
termination
  by (relation "measure nat") auto

declare bitlen.simps [simp del]

definition ilog2 :: "rat \<Rightarrow> int" where
  "ilog2 a =
     (let (p, q) = quotient_of a;
          k = int (bitlen p) - int (bitlen q)
      in if 2 powi k \<le> a then k else k - 1)"

text \<open>
  The double nearest to a rational (IEEE 754 binary64, round to nearest, ties to even):
  a significand of 53 bits above the exponent \<open>- 1022\<close>, multiples of \<open>2 powi - 1074\<close>
  below it (the subnormal numbers), and an infinity when the rounded value reaches
  \<open>2 powi 1024\<close>. This is also the number that a JSON numeral denotes.
\<close>

definition binary64 :: "rat \<Rightarrow> jsnum" where
  "binary64 x =
     (if x = 0 then Fin 0
      else
        let e = max (ilog2 \<bar>x\<bar>) (- 1022) - 52;
            m = round_half_even (\<bar>x\<bar> / 2 powi e);
            y = of_int m * 2 powi e
        in if y \<ge> 2 powi 1024 then (if x > 0 then PosInf else NegInf)
           else Fin (if x > 0 then y else - y))"

text \<open>The result of an arithmetic operation: its exact result, rounded when finite.\<close>

definition js_round :: "jsnum \<Rightarrow> jsnum" where
  "js_round v = (case v of Fin x \<Rightarrow> binary64 x | _ \<Rightarrow> v)"

subsection \<open>Validation issues and form submission\<close>

text \<open>
  A zod issue carries the path of the field and a message. The dialogs hand their
  schema to react-hook-form through \<^verbatim>\<open>zodResolver\<close>; \<^verbatim>\<open>form.handleSubmit(onSubmit)\<close>
  runs the resolver and calls \<^verbatim>\<open>onSubmit\<close> only when it reports no issue, otherwise
  the issues are shown next to their fields and nothing else happens.
\<close>

datatype path_elem = Key string | Index nat

datatype issue = Issue "path_elem list" string

text \<open>The payloads of \<^verbatim>\<open>createCampaign\<close> and \<^verbatim>\<open>resolveDispute\<close>.\<close>

datatype ad_format = post | story | video | integration

record CreateCampaignPayload =
  p_channel_id :: string
  p_budget :: rat
  p_start_date :: string
  p_end_date :: string
  p_ad_format :: ad_format
  p_creative_text :: string
  p_creative_images :: "string list option"
  p_creative_video_url :: "string option"

record ResolveDisputePayload =
  p_decision :: string
  p_refund_amount :: "jsnum option"
  p_notes :: string

text \<open>
  The calls the components make on \<^verbatim>\<open>campaignsApi\<close> and \<^verbatim>\<open>adminApi\<close>, each with
  the arguments of its call site. The optional third argument of
  \<^verbatim>\<open>confirmCampaign\<close> is \<^term>\<open>None\<close> when the call site passes none.
\<close>

datatype api_call =
    acceptCampaign string "string option"
  | rejectCampaign string string
  | cancelCampaign string
  | submitCampaign string string string
  | confirmCampaign string bool "string option"
  | createCampaign CreateCampaignPayload
  | resolveDispute string ResolveDisputePayload

definition handleSubmit ::
  "('d \<Rightarrow> issue list) \<Rightarrow> ('d \<Rightarrow> api_call list) \<Rightarrow> 'd \<Rightarrow> issue list + api_call list" where
  "handleSubmit resolver onSubmit d =
     (case resolver d of [] \<Rightarrow> Inr (onSubmit d) | e # es \<Rightarrow> Inl (e # es))"

text \<open>The API calls a submission has made: none when validation failed.\<close>

definition calls :: "issue list + api_call list \<Rightarrow> api_call list" where
  "calls r = (case r of Inl _ \<Rightarrow> [] | Inr cs \<Rightarrow> cs)"

section \<open>RejectCampaignDialog\<close>

record RejectFormData =
  r_reason :: string

text \<open>
  \<^verbatim>\<open>z.string().min(10, ...).max(500, ...)\<close>: both checks run on the string, each
  adding its issue.
\<close>

definition rejectSchema :: "RejectFormData \<Rightarrow> issue list" where
  "rejectSchema d =
     (if length (r_reason d) < 10
      then [Issue [Key ''reason''] ''Reason must be at least 10 characters''] else []) @
     (if length (r_reason d) > 500
      then [Issue [Key ''reason''] ''Reason must be less than 500 characters''] else [])"

definition RejectCampaignDialog_onSubmit :: "string \<Rightarrow> RejectFormData \<Rightarrow> api_call list" where
  "RejectCampaignDialog_onSubmit campaignId d = [rejectCampaign campaignId (r_reason d)]"

definition RejectCampaignDialog_submit :: "string \<Rightarrow> RejectFormData \<Rightarrow> issue list + api_call list" where
  "RejectCampaignDialog_submit campaignId =
     handleSubmit rejectSchema (RejectCampaignDialog_onSubmit campaignId)"

section \<open>The campaign\<close>

text \<open>
  The fields of \<^verbatim>\<open>Campaign\<close> that the components read. Dates and timestamps are
  the strings the API delivers; \<^verbatim>\<open>budget\<close> and \<^verbatim>\<open>platform_commission_percent\<close>
  are numbers that arrive as JSON, hence finite: the field holds the rational of the
  JSON numeral, and reading it gives the double nearest to it.
\<close>

record Campaign =
  c_id :: string
  c_status :: string
  c_budget :: rat
  c_platform_commission_percent :: rat
  c_start_date :: string
  c_end_date :: string
  c_created_at :: string
  c_updated_at :: string
  c_owner_submitted_at :: "string option"
  c_seller_confirmed_at :: "string option"
  c_actual_completion_date :: "string option"
  c_placement_proof_url :: "string option"
  c_placement_proof_type :: "string option"
  c_owner_notes :: "string option"
  c_seller_notes :: "string option"

section \<open>ConfirmCampaignDialog\<close>

record ConfirmFormData =
  f_confirmed :: bool
  f_reason :: "string option"

text \<open>
  \<^verbatim>\<open>reason: z.string().min(10, ...).optional()\<close> checks a reason that is present;
  the \<^verbatim>\<open>refine\<close> on the object then asks, for a dispute, for a truthy reason of ten
  code units or more. A failed \<^verbatim>\<open>min\<close> leaves the object dirty, not aborted, so the
  refinement runs as well and both issues are reported.
\<close>

definition confirmSchema :: "ConfirmFormData \<Rightarrow> issue list" where
  "confirmSchema d =
     (case f_reason d of
        None \<Rightarrow> []
      | Some r \<Rightarrow>
          if length r < 10
          then [Issue [Key ''reason''] ''Reason must be at least 10 characters''] else []) @
     (if (if \<not> f_confirmed d
          then (case f_reason d of None \<Rightarrow> False | Some r \<Rightarrow> r \<noteq> [] \<and> length r \<ge> 10)
          else True)
      then [] else [Issue [Key ''reason''] ''Please provide a reason for disputing''])"

text \<open>
  \<^verbatim>\<open>await campaignsApi.confirmCampaign(campaign.id, data.confirmed)\<close>: two arguments.
\<close>

definition ConfirmCampaignDialog_onSubmit :: "Campaign \<Rightarrow> ConfirmFormData \<Rightarrow> api_call list" where
  "ConfirmCampaignDialog_onSubmit campaign d = [confirmCampaign (c_id campaign) (f_confirmed d) None]"

definition ConfirmCampaignDialog_submit :: "Campaign \<Rightarrow> ConfirmFormData \<Rightarrow> issue list + api_call list" where
  "ConfirmCampaignDialog_submit campaign =
     handleSubmit confirmSchema (ConfirmCampaignDialog_onSubmit campaign)"

text \<open>
  The amounts the dialog shows (budget minus commission), in double arithmetic: the
  division, the multiplication and the subtraction each round their exact result.
\<close>

definition commission :: "Campaign \<Rightarrow> jsnum" where
  "commission campaign =
     js_round (js_mul (binary64 (c_budget campaign))
       (js_round (js_div (binary64 (c_platform_commission_percent campaign)) (Fin 100))))"

definition paymentAmount :: "Campaign \<Rightarrow> jsnum" where
  "paymentAmount campaign =
     js_round (js_sub (binary64 (c_budget campaign)) (commission campaign))"

section \<open>SubmitPlacementDialog\<close>

record SubmitFormData =
  f_placement_proof_url :: string
  f_placement_proof_type :: string
  f_owner_notes :: "string option"

text \<open>
  zod's \<^verbatim>\<open>url\<close> check accepts what \<^verbatim>\<open>new URL(s)\<close> parses. The URL parser belongs
  to the platform, so it is a parameter \<open>isUrl\<close> of the schema. The checks of
  \<^verbatim>\<open>z.string().url('Invalid URL').min(1, 'Proof URL is required')\<close> run in this order.
\<close>

definition squote :: "string \<Rightarrow> string" where
  "squote s = CHR 0x27 # s @ [CHR 0x27]"

definition proof_types :: "string list" where
  "proof_types = [''screenshot'', ''post_link'', ''other'']"

definition submitSchema :: "(string \<Rightarrow> bool) \<Rightarrow> SubmitFormData \<Rightarrow> issue list" where
  "submitSchema isUrl d =
     (if \<not> isUrl (f_placement_proof_url d)
      then [Issue [Key ''placement_proof_url''] ''Invalid URL''] else []) @
     (if length (f_placement_proof_url d) < 1
      then [Issue [Key ''placement_proof_url''] ''Proof URL is required''] else []) @
     (if f_placement_proof_type d \<in> set proof_types then []
      else [Issue [Key ''placement_proof_type'']
              (''Invalid enum value. Expected '' @ squote ''screenshot'' @ '' | '' @
               squote ''post_link'' @ '' | '' @ squote ''other'' @ '', received '' @
               squote (f_placement_proof_type d))]) @
     (case f_owner_notes d of
        None \<Rightarrow> []
      | Some n \<Rightarrow>
          if length n > 500
          then [Issue [Key ''owner_notes''] ''Notes must be less than 500 characters''] else [])"

definition SubmitPlacementDialog_onSubmit :: "string \<Rightarrow> SubmitFormData \<Rightarrow> api_call list" where
  "SubmitPlacementDialog_onSubmit campaignId d =
     [submitCampaign campaignId (f_placement_proof_url d) (f_placement_proof_type d)]"

definition SubmitPlacementDialog_submit ::
  "(string \<Rightarrow> bool) \<Rightarrow> string \<Rightarrow> SubmitFormData \<Rightarrow> issue list + api_call list" where
  "SubmitPlacementDialog_submit isUrl campaignId =
     handleSubmit (submitSchema isUrl) (SubmitPlacementDialog_onSubmit campaignId)"

section \<open>CampaignActions\<close>

text \<open>
  What the component renders for a campaign and a user type: the buttons, each opening
  its dialog or, for the cancellation, calling the API after a confirmation.
  \<^verbatim>\<open>return null\<close> is the empty list.
\<close>

datatype action = Accept | Reject | SubmitPlacement | CancelCampaign | ReviewConfirm

text \<open>
  The two blocks of the component, one per user type. Each returns from the component
  when one of its conditions holds (\<^term>\<open>Some\<close>) and falls through otherwise
  (\<^term>\<open>None\<close>).
\<close>

definition channel_owner_actions :: "Campaign \<Rightarrow> action list option" where
  "channel_owner_actions campaign =
     (if c_status campaign = ''pending'' then Some [Accept, Reject]
      else if c_status campaign = ''accepted'' then Some [SubmitPlacement]
      else None)"

definition seller_actions :: "Campaign \<Rightarrow> action list option" where
  "seller_actions campaign =
     (if c_status campaign = ''pending'' then Some [CancelCampaign]
      else if c_status campaign = ''in_progress'' \<and> truthy (c_owner_submitted_at campaign)
      then Some [ReviewConfirm]
      else None)"

definition CampaignActions :: "Campaign \<Rightarrow> string \<Rightarrow> action list" where
  "CampaignActions campaign userType =
     (case (if userType = ''channel_owner'' then channel_owner_actions campaign else None) of
        Some buttons \<Rightarrow> buttons
      | None \<Rightarrow>
          (case (if userType = ''seller'' then seller_actions campaign else None) of
             Some buttons \<Rightarrow> buttons
           | None \<Rightarrow> []))"

section \<open>CampaignTimeline\<close>

datatype icon = FileText | CheckCircle2 | Send | CheckSquare | Trophy | XCircle

record TimelineStep =
  s_id :: string
  s_label :: string
  s_icon :: icon
  s_date :: "string option"
  s_completed :: bool
  s_current :: bool

definition initial_steps :: "Campaign \<Rightarrow> TimelineStep list" where
  "initial_steps campaign =
     [\<lparr>s_id = ''created'', s_label = ''Created'', s_icon = FileText,
       s_date = Some (c_created_at campaign),
       s_completed = True,
       s_current = (c_status campaign = ''pending'')\<rparr>,
      \<lparr>s_id = ''accepted'', s_label = ''Accepted'', s_icon = CheckCircle2,
       s_date = (if c_status campaign = ''accepted'' \<or> c_status campaign = ''in_progress''
                    \<or> c_status campaign = ''completed''
                 then Some (c_updated_at campaign) else None),
       s_completed = (c_status campaign \<in> set [''accepted'', ''in_progress'', ''completed'']),
       s_current = (c_status campaign = ''accepted'')\<rparr>,
      \<lparr>s_id = ''submitted'', s_label = ''Placement Submitted'', s_icon = Send,
       s_date = c_owner_submitted_at campaign,
       s_completed = truthy (c_owner_submitted_at campaign),
       s_current = (c_status campaign = ''in_progress'' \<and> truthy (c_owner_submitted_at campaign))\<rparr>,
      \<lparr>s_id = ''confirmed'', s_label = ''Confirmed by Seller'', s_icon = CheckSquare,
       s_date = c_seller_confirmed_at campaign,
       s_completed = truthy (c_seller_confirmed_at campaign),
       s_current = (c_status campaign = ''completed'' \<and> truthy (c_seller_confirmed_at campaign))\<rparr>,
      \<lparr>s_id = ''completed'', s_label = ''Completed'', s_icon = Trophy,
       s_date = js_or (c_actual_completion_date campaign) (c_seller_confirmed_at campaign),
       s_completed = (c_status campaign = ''completed''),
       s_current = (c_status campaign = ''completed'')\<rparr>]"

text \<open>
  The steps the timeline maps over: for a rejected or cancelled campaign the second
  entry is replaced, keeping its id and date, by a completed step labelled with the status.
\<close>

definition CampaignTimeline :: "Campaign \<Rightarrow> TimelineStep list" where
  "CampaignTimeline campaign =
     (let steps = initial_steps campaign in
      if c_status campaign = ''rejected'' \<or> c_status campaign = ''cancelled''
      then steps[1 := (steps ! 1)\<lparr>
             s_label := (if c_status campaign = ''rejected'' then ''Rejected'' else ''Cancelled''),
             s_icon := XCircle,
             s_completed := True,
             s_current := False\<rparr>]
      else steps)"

section \<open>CampaignCard\<close>

subsection \<open>Progress over time\<close>

text \<open>
  The progress is computed here on exact results: it ends in a clamp, and what is shown
  about it below (a finite value between 0 and 100, or \<^verbatim>\<open>NaN\<close>) is the same for
  the rounded results, since rounding never turns a number into \<^verbatim>\<open>NaN\<close> and the
  clamp maps every number but \<^verbatim>\<open>NaN\<close> into the interval.
\<close>

text \<open>
  \<^verbatim>\<open>new Date(s).getTime()\<close> is the time value of the date in milliseconds, or
  \<^verbatim>\<open>NaN\<close> for a string that is no date. The date parser belongs to the platform: it is
  the parameter \<open>parse\<close>, with \<^term>\<open>None\<close> for an invalid date. \<open>now\<close> is the time
  value of \<^verbatim>\<open>new Date()\<close>.
\<close>

definition getTime :: "(string \<Rightarrow> int option) \<Rightarrow> string \<Rightarrow> jsnum" where
  "getTime parse s = (case parse s of None \<Rightarrow> NaN | Some t \<Rightarrow> Fin (of_int t))"

definition totalDuration :: "(string \<Rightarrow> int option) \<Rightarrow> Campaign \<Rightarrow> jsnum" where
  "totalDuration parse campaign =
     js_sub (getTime parse (c_end_date campaign)) (getTime parse (c_start_date campaign))"

definition elapsed :: "(string \<Rightarrow> int option) \<Rightarrow> Campaign \<Rightarrow> int \<Rightarrow> jsnum" where
  "elapsed parse campaign now =
     js_sub (Fin (of_int now)) (getTime parse (c_start_date campaign))"

definition progress :: "(string \<Rightarrow> int option) \<Rightarrow> Campaign \<Rightarrow> int \<Rightarrow> jsnum" where
  "progress parse campaign now =
     Math_max (Fin 0)
       (Math_min (Fin 100)
          (js_mul (js_div (elapsed parse campaign now) (totalDuration parse campaign)) (Fin 100)))"

subsection \<open>The status badge\<close>

datatype variant = Default | Secondary | Destructive | Outline










section \<open>CreateCampaignForm\<close>

text \<open>
  The form's data has the type zod infers from the schema: the budget is a number (the
  input's handler stores \<^verbatim>\<open>parseFloat(value) || 0\<close>, never \<^verbatim>\<open>NaN\<close>) and the ad
  format one of the four options of its select. On data of this type no check aborts the
  parse, so the refinement on the dates always runs.
\<close>

record CreateCampaignFormData =
  f_channel_id :: string
  f_budget :: rat
  f_start_date :: string
  f_end_date :: string
  f_ad_format :: ad_format
  f_creative_text :: string
  f_creative_images :: "string list option"
  f_creative_video_url :: "string option"

text \<open>\<^verbatim>\<open>z.array(z.string().url()).optional()\<close>: one issue for each entry that is no URL.\<close>

definition creative_images_issues :: "(string \<Rightarrow> bool) \<Rightarrow> string list option \<Rightarrow> issue list" where
  "creative_images_issues isUrl imgs =
     (case imgs of
        None \<Rightarrow> []
      | Some us \<Rightarrow>
          concat (map (\<lambda>(i, u). if isUrl u then []
                                  else [Issue [Key ''creative_images'', Index i] ''Invalid url''])
                      (enumerate 0 us)))"

text \<open>\<^verbatim>\<open>z.string().url().optional().or(z.literal(''))\<close>.\<close>

definition creative_video_url_issues :: "(string \<Rightarrow> bool) \<Rightarrow> string option \<Rightarrow> issue list" where
  "creative_video_url_issues isUrl v =
     (case v of
        None \<Rightarrow> []
      | Some u \<Rightarrow> if isUrl u \<or> u = [] then []
                  else [Issue [Key ''creative_video_url''] ''Invalid url''])"

text \<open>
  The refinement: \<^verbatim>\<open>new Date(data.end_date) > new Date(data.start_date)\<close> compares
  the time values, and is false as soon as one of the dates is invalid.
\<close>

definition end_after_start :: "(string \<Rightarrow> int option) \<Rightarrow> CreateCampaignFormData \<Rightarrow> bool" where
  "end_after_start parse d =
     (case (parse (f_start_date d), parse (f_end_date d)) of
        (Some start_t, Some end_t) \<Rightarrow> end_t > start_t
      | _ \<Rightarrow> False)"

definition createCampaignSchema ::
  "(string \<Rightarrow> bool) \<Rightarrow> (string \<Rightarrow> int option) \<Rightarrow> CreateCampaignFormData \<Rightarrow> issue list" where
  "createCampaignSchema isUrl parse d =
     (if length (f_channel_id d) < 1
      then [Issue [Key ''channel_id''] ''Please select a channel''] else []) @
     (if f_budget d < 1
      then [Issue [Key ''budget''] ''Budget must be at least 1 RUB''] else []) @
     (if length (f_start_date d) < 1
      then [Issue [Key ''start_date''] ''Start date is required''] else []) @
     (if length (f_end_date d) < 1
      then [Issue [Key ''end_date''] ''End date is required''] else []) @
     (if length (f_creative_text d) < 10
      then [Issue [Key ''creative_text''] ''Creative text must be at least 10 characters''] else []) @
     (if length (f_creative_text d) > 2000
      then [Issue [Key ''creative_text''] ''String must contain at most 2000 character(s)''] else []) @
     creative_images_issues isUrl (f_creative_images d) @
     creative_video_url_issues isUrl (f_creative_video_url d) @
     (if end_after_start parse d then []
      else [Issue [Key ''end_date''] ''End date must be after start date''])"

text \<open>
  \<^verbatim>\<open>hasEnoughBalance = balance !== null && balance >= selectedBudget\<close>, where
  \<^verbatim>\<open>selectedBudget\<close> watches the budget field.
\<close>

definition hasEnoughBalance :: "rat option \<Rightarrow> rat \<Rightarrow> bool" where
  "hasEnoughBalance balance selectedBudget =
     (case balance of None \<Rightarrow> False | Some b \<Rightarrow> b \<ge> selectedBudget)"

definition CreateCampaignForm_onSubmit :: "rat option \<Rightarrow> CreateCampaignFormData \<Rightarrow> api_call list" where
  "CreateCampaignForm_onSubmit balance d =
     (if \<not> hasEnoughBalance balance (f_budget d) then []
      else [createCampaign
              \<lparr>p_channel_id = f_channel_id d,
               p_budget = f_budget d,
               p_start_date = f_start_date d,
               p_end_date = f_end_date d,
               p_ad_format = f_ad_format d,
               p_creative_text = f_creative_text d,
               p_creative_images =
                 (case f_creative_images d of
                    None \<Rightarrow> None
                  | Some us \<Rightarrow> if length us > 0 then Some us else None),
               p_creative_video_url =
                 (if truthy (f_creative_video_url d) then f_creative_video_url d else None)\<rparr>])"

definition CreateCampaignForm_submit ::
  "(string \<Rightarrow> bool) \<Rightarrow> (string \<Rightarrow> int option) \<Rightarrow> rat option \<Rightarrow> CreateCampaignFormData
     \<Rightarrow> issue list + api_call list" where
  "CreateCampaignForm_submit isUrl parse balance =
     handleSubmit (createCampaignSchema isUrl parse) (CreateCampaignForm_onSubmit balance)"

section \<open>The dispute page of the administrator\<close>

record Dispute =
  d_id :: string
  d_campaign_id :: string
  d_status :: string
  d_reason :: string

text \<open>
  \<^verbatim>\<open>String.prototype.trim\<close> removes white space and line terminators at both ends;
  these are the ones among the code units below 256.
\<close>

definition is_space :: "char \<Rightarrow> bool" where
  "is_space ch = ((of_char ch :: nat) \<in> set [9, 10, 11, 12, 13, 32, 160])"

definition trim :: "string \<Rightarrow> string" where
  "trim s = rev (dropWhile is_space (rev (dropWhile is_space s)))"

text \<open>The state of the page: its five \<^verbatim>\<open>useState\<close> cells, with their initial values.\<close>

record PageState =
  st_resolveDialogOpen :: bool
  st_decision :: string
  st_notes :: string
  st_refundAmount :: string
  st_isProcessing :: bool

definition initial_state :: PageState where
  "initial_state =
     \<lparr>st_resolveDialogOpen = False, st_decision = ''refund'', st_notes = [], st_refundAmount = [],
      st_isProcessing = False\<rparr>"

text \<open>\<^verbatim>\<open>const dispute = disputes?.find(d => d.id === disputeId)\<close>.\<close>

definition find_dispute :: "Dispute list option \<Rightarrow> string \<Rightarrow> Dispute option" where
  "find_dispute disputes disputeId =
     (case disputes of None \<Rightarrow> None | Some ds \<Rightarrow> find (\<lambda>d. d_id d = disputeId) ds)"

text \<open>
  \<^verbatim>\<open>handleResolve\<close>, up to its \<^verbatim>\<open>await\<close>: the new state and the call made.
  \<^verbatim>\<open>parseFloat\<close> belongs to the platform and is a parameter.
\<close>

definition handleResolve ::
  "(string \<Rightarrow> jsnum) \<Rightarrow> Dispute option \<Rightarrow> PageState \<Rightarrow> PageState \<times> api_call list" where
  "handleResolve parseFloat dispute s =
     (case dispute of
        None \<Rightarrow> (s, [])
      | Some d \<Rightarrow>
          (s\<lparr>st_isProcessing := True\<rparr>,
           [resolveDispute (d_id d)
              \<lparr>p_decision = st_decision s,
               p_refund_amount =
                 (if st_decision s = ''partial_refund'' then Some (parseFloat (st_refundAmount s)) else None),
               p_notes = st_notes s\<rparr>]))"

text \<open>
  What can happen on the page. The radio group offers three items; the buttons and
  inputs exist only while they are rendered and act only while they are enabled.
  \<open>Settled ok\<close> is the return (\<open>ok\<close>) or the failure of the awaited call.
\<close>

datatype RadioGroupItem = Item_refund | Item_release | Item_partial

fun item_value :: "RadioGroupItem \<Rightarrow> string" where
  "item_value Item_refund = ''refund''"
| "item_value Item_release = ''release_payment''"
| "item_value Item_partial = ''partial_refund''"

datatype event =
    ClickResolveDispute
  | DialogOpenChange bool
  | SelectDecision RadioGroupItem
  | ChangeRefundAmount string
  | ChangeNotes string
  | ClickCancel
  | ClickResolve
  | Settled bool

definition step ::
  "(string \<Rightarrow> jsnum) \<Rightarrow> Dispute option \<Rightarrow> Campaign option \<Rightarrow> PageState \<Rightarrow> event
     \<Rightarrow> PageState \<times> api_call list" where
  "step parseFloat dispute campaign s ev =
     (case dispute of
        None \<Rightarrow> (s, [])
      | Some d \<Rightarrow>
          (case ev of
             ClickResolveDispute \<Rightarrow>
               if d_status d \<noteq> ''resolved'' \<and> d_status d \<noteq> ''closed''
               then (s\<lparr>st_resolveDialogOpen := True\<rparr>, []) else (s, [])
           | DialogOpenChange b \<Rightarrow> (s\<lparr>st_resolveDialogOpen := b\<rparr>, [])
           | SelectDecision v \<Rightarrow>
               if st_resolveDialogOpen s then (s\<lparr>st_decision := item_value v\<rparr>, []) else (s, [])
           | ChangeRefundAmount v \<Rightarrow>
               if st_resolveDialogOpen s \<and> st_decision s = ''partial_refund'' \<and> campaign \<noteq> None
               then (s\<lparr>st_refundAmount := v\<rparr>, []) else (s, [])
           | ChangeNotes v \<Rightarrow>
               if st_resolveDialogOpen s then (s\<lparr>st_notes := v\<rparr>, []) else (s, [])
           | ClickCancel \<Rightarrow>
               if st_resolveDialogOpen s \<and> \<not> st_isProcessing s
               then (s\<lparr>st_resolveDialogOpen := False\<rparr>, []) else (s, [])
           | ClickResolve \<Rightarrow>
               if st_resolveDialogOpen s \<and> \<not> (st_isProcessing s \<or> trim (st_notes s) = [])
               then handleResolve parseFloat dispute s else (s, [])
           | Settled ok \<Rightarrow>
               if st_isProcessing s
               then (s\<lparr>st_isProcessing := False,
                       st_resolveDialogOpen := (if ok then False else st_resolveDialogOpen s)\<rparr>, [])
               else (s, [])))"

text \<open>A session on the page: the events in order, collecting the calls made.\<close>

fun run ::
  "(string \<Rightarrow> jsnum) \<Rightarrow> Dispute option \<Rightarrow> Campaign option \<Rightarrow> PageState \<Rightarrow> event list
     \<Rightarrow> PageState \<times> api_call list" where
  "run parseFloat dispute campaign s [] = (s, [])"
| "run parseFloat dispute campaign s (ev # evs) =
     (let (s', cs) = step parseFloat dispute campaign s ev;
          (s'', cs') = run parseFloat dispute campaign s' evs
      in (s'', cs @ cs'))"

definition DisputeDetailsPage ::
  "(string \<Rightarrow> jsnum) \<Rightarrow> string \<Rightarrow> Dispute list option \<Rightarrow> Campaign option \<Rightarrow> event list
     \<Rightarrow> api_call list" where
  "DisputeDetailsPage parseFloat disputeId disputes campaign evs =
     snd (run parseFloat (find_dispute disputes disputeId) campaign initial_state evs)"

section \<open>The lifecycle manager\<close>

text \<open>
  The roles and the error taxonomy are those of the specification; the manager itself is
  server code that is not part of the sources.
\<close>

datatype Role = Seller | ChannelOwner | Admin

datatype lifecycle_error = InvalidTransition | Unauthorized | ValidationError | Conflict | NotFound

text \<open>
  Modelled from the spec: the lifecycle manager's \<^verbatim>\<open>submitPlacement\<close> operation, which
  the front end only reaches through \<^verbatim>\<open>campaignsApi.submitCampaign\<close>. The definition
  follows the transition table (accepted to in_progress, by the channel owner, with a
  proof URL and a proof type among screenshot, post_link and other; it sets
  \<^verbatim>\<open>owner_submitted_at\<close>), the error taxonomy, and the statement that the manager is a
  function from the current state, the actor's role and the payload to the new state or
  an error. The payload is validated first, as the testable property on the empty proof
  URL asks without condition on role or status.
\<close>

definition submitPlacement ::
  "Role \<Rightarrow> Campaign \<Rightarrow> string \<Rightarrow> string \<Rightarrow> string option \<Rightarrow> string \<Rightarrow> lifecycle_error + Campaign" where
  "submitPlacement role campaign proofUrl proofType ownerNotes now =
     (if proofUrl = [] \<or> proofType \<notin> set proof_types then Inl ValidationError
      else if role \<noteq> ChannelOwner then Inl Unauthorized
      else if c_status campaign \<noteq> ''accepted'' then Inl InvalidTransition
      else Inr (campaign\<lparr>c_status := ''in_progress'',
                         c_placement_proof_url := Some proofUrl,
                         c_placement_proof_type := Some proofType,
                         c_owner_notes := (case ownerNotes of None \<Rightarrow> c_owner_notes campaign
                                                            | Some n \<Rightarrow> Some n),
                         c_owner_submitted_at := Some now\<rparr>))"

section \<open>Sample data\<close>

definition campaign0 :: Campaign where
  "campaign0 =
     \<lparr>c_id = ''c1'', c_status = ''in_progress'', c_budget = 10000,
      c_platform_commission_percent = 10,
      c_start_date = ''2024-01-01'', c_end_date = ''2024-01-08'',
      c_created_at = ''2023-12-20T10:00:00Z'', c_updated_at = ''2023-12-21T10:00:00Z'',
      c_owner_submitted_at = Some ''2024-01-02T09:00:00Z'', c_seller_confirmed_at = None,
      c_actual_completion_date = None,
      c_placement_proof_url = Some ''https://x'', c_placement_proof_type = Some ''screenshot'',
      c_owner_notes = None, c_seller_notes = None\<rparr>"

definition sample_parse :: "string \<Rightarrow> int option" where
  "sample_parse s =
     (if s = ''2024-01-01'' then Some 1704067200000
      else if s = ''2024-01-08'' then Some 1704672000000
      else None)"

definition sample_isUrl :: "string \<Rightarrow> bool" where
  "sample_isUrl u = (take 8 u = ''https://'' \<and> length u > 8)"

definition sample_parseFloat :: "string \<Rightarrow> jsnum" where
  "sample_parseFloat s = (if s = ''2500'' then Fin 2500 else NaN)"

definition form0 :: CreateCampaignFormData where
  "form0 =
     \<lparr>f_channel_id = ''ch1'', f_budget = 10000,
      f_start_date = ''2024-01-01'', f_end_date = ''2024-01-08'',
      f_ad_format = post, f_creative_text = ''Spring sale: 20% off everything'',
      f_creative_images = Some [], f_creative_video_url = Some []\<rparr>"

definition dispute0 :: Dispute where
  "dispute0 = \<lparr>d_id = ''d1'', d_campaign_id = ''c1'', d_status = ''open'',
               d_reason = ''Ad was never posted''\<rparr>"

section \<open>Rounding to a double: error and evaluation\<close>

text \<open>Rounding to an integer moves a number by at most one half.\<close>

lemma round_half_even_error: "\<bar>of_int (round_half_even x) - x\<bar> \<le> 1 / 2"
proof -
  have "of_int \<lfloor>x\<rfloor> \<le> x" "x < of_int \<lfloor>x\<rfloor> + 1"
    by linarith+
  then show ?thesis
    by (auto simp: round_half_even_def Let_def)
qed

text \<open>A positive integer lies between the powers of two that its number of digits gives.\<close>

lemma bitlen_bounds:
  "0 < n \<Longrightarrow> 2 ^ (bitlen n - 1) \<le> n \<and> n < 2 ^ bitlen n"
proof (induction n rule: bitlen.induct)
  case (1 n)
  show ?case
  proof (cases "n = 1")
    case True
    then show ?thesis
      by (simp add: bitlen.simps [of 1] bitlen.simps [of 0])
  next
    case False
    with "1.prems" have h: "0 < n div 2" by simp
    with "1.prems" "1.IH" have ih: "2 ^ (bitlen (n div 2) - 1) \<le> n div 2" "n div 2 < 2 ^ bitlen (n div 2)"
      by simp_all
    have bl: "bitlen n = Suc (bitlen (n div 2))"
      using "1.prems" by (simp add: bitlen.simps [of n])
    have pos: "0 < bitlen (n div 2)"
      using h by (simp add: bitlen.simps [of "n div 2"])
    then have "(2::int) ^ bitlen (n div 2) = 2 * 2 ^ (bitlen (n div 2) - 1)"
      by (cases "bitlen (n div 2)") simp_all
    with ih(1) have "(2::int) ^ bitlen (n div 2) \<le> n"
      by linarith
    moreover from ih(2) have "n < 2 * 2 ^ bitlen (n div 2)"
      by linarith
    ultimately show ?thesis
      by (simp add: bl)
  qed
qed

lemma pow2_bounds:
  assumes "0 < (n::int)"
  shows "(2::rat) powi (int (bitlen n) - 1) \<le> of_int n"
    and "of_int n < (2::rat) powi (int (bitlen n))"
proof -
  let ?f = "bitlen n"
  from bitlen_bounds [OF assms]
  have b: "2 ^ (?f - 1) \<le> n" "n < 2 ^ ?f" by simp_all
  have f1: "1 \<le> ?f"
    using assms by (simp add: bitlen.simps [of n])
  from b(1) have "(of_int (2 ^ (?f - 1)) :: rat) \<le> of_int n"
    by (simp only: of_int_le_iff)
  then have "(2::rat) ^ (?f - 1) \<le> of_int n"
    by simp
  moreover have "int ?f - 1 = int (?f - 1)" using f1 by simp
  ultimately show "(2::rat) powi (int ?f - 1) \<le> of_int n"
    by (simp only: power_int_of_nat)
  from b(2) have "(of_int n :: rat) < of_int (2 ^ ?f)"
    by (simp only: of_int_less_iff)
  then show "of_int n < (2::rat) powi (int ?f)"
    by simp
qed

text \<open>\<open>ilog2\<close> is the binary exponent: the only \<open>k\<close> with \<open>2 powi k \<le> a < 2 powi (k + 1)\<close>.\<close>

lemma ilog2_bounds:
  assumes "0 < a"
  shows "2 powi (ilog2 a) \<le> a" and "a < 2 powi (ilog2 a + 1)"
proof -
  obtain p q where pq: "quotient_of a = (p, q)"
    by (cases "quotient_of a")
  then have q: "0 < q" by (rule quotient_of_denom_pos)
  from pq have a: "a = of_int p / of_int q" by (rule quotient_of_div)
  with assms q have p: "0 < p"
    by (simp add: zero_less_divide_iff)
  let ?fp = "int (bitlen p)"
  let ?fq = "int (bitlen q)"
  let ?k = "?fp - ?fq"
  have Q: "(0::rat) < of_int q" using q by simp
  have lo: "(2::rat) powi (?k - 1) < a"
  proof -
    have "(2::rat) powi (?k - 1) * of_int q < 2 powi (?k - 1) * 2 powi ?fq"
      using pow2_bounds(2) [OF q] by (simp add: mult_strict_left_mono)
    also have "\<dots> = 2 powi (?fp - 1)"
      using power_int_add [of "2::rat" "?k - 1" "?fq"] by simp
    also have "\<dots> \<le> of_int p"
      using pow2_bounds(1) [OF p] .
    finally show ?thesis
      using Q by (simp add: a pos_less_divide_eq)
  qed
  have hi: "a < (2::rat) powi (?k + 1)"
  proof -
    have "of_int p < (2::rat) powi ?fp"
      using pow2_bounds(2) [OF p] .
    also have "\<dots> = 2 powi (?k + 1) * 2 powi (?fq - 1)"
      using power_int_add [of "2::rat" "?k + 1" "?fq - 1"] by simp
    also have "\<dots> \<le> 2 powi (?k + 1) * of_int q"
      using pow2_bounds(1) [OF q] by (simp add: mult_left_mono)
    finally show ?thesis
      using Q by (simp add: a pos_divide_less_eq)
  qed
  show "2 powi (ilog2 a) \<le> a"
    using lo by (auto simp: ilog2_def pq Let_def)
  show "a < 2 powi (ilog2 a + 1)"
    using hi by (auto simp: ilog2_def pq Let_def not_le)
qed

lemma ilog2_eqI:
  assumes "2 powi k \<le> a" "a < 2 powi (k + 1)"
  shows "ilog2 a = k"
proof -
  have "(0::rat) < 2 powi k" by simp
  with assms(1) have a: "0 < a" by linarith
  note b = ilog2_bounds [OF a]
  have "\<not> ilog2 a < k"
  proof
    assume "ilog2 a < k"
    then have "(2::rat) powi (ilog2 a + 1) \<le> 2 powi k"
      by (intro power_int_increasing) simp_all
    with b(2) assms(1) show False by linarith
  qed
  moreover have "\<not> k < ilog2 a"
  proof
    assume "k < ilog2 a"
    then have "(2::rat) powi (k + 1) \<le> 2 powi (ilog2 a)"
      by (intro power_int_increasing) simp_all
    with b(1) assms(2) show False by linarith
  qed
  ultimately show ?thesis by linarith
qed

text \<open>
  The double of a positive number in the normal range, from its exponent and its rounded
  significand.
\<close>

lemma binary64_normal:
  assumes "2 powi k \<le> x" "x < 2 powi (k + 1)" "- 1022 \<le> k" "k \<le> 1022"
    and "round_half_even (x / 2 powi (k - 52)) = m"
  shows "binary64 x = Fin (of_int m * 2 powi (k - 52))"
proof -
  have "(0::rat) < 2 powi k" by simp
  with assms(1) have x: "0 < x" by linarith
  have il: "ilog2 \<bar>x\<bar> = k"
    using assms(1,2) x by (intro ilog2_eqI) simp_all
  have P: "(0::rat) < 2 powi (k - 52)" by simp
  have "x / 2 powi (k - 52) < 2 powi (k + 1) / 2 powi (k - 52)"
    using assms(2) P by (simp add: divide_strict_right_mono)
  also have "\<dots> = 2 ^ 53"
    using power_int_diff [of "2::rat" "k + 1" "k - 52"] by simp
  finally have s: "x / 2 powi (k - 52) < 2 ^ 53" .
  have "\<bar>of_int m - x / 2 powi (k - 52)\<bar> \<le> 1 / 2"
    using round_half_even_error [of "x / 2 powi (k - 52)"] assms(5) by simp
  with s have "(of_int m :: rat) < 2 ^ 53 + 1"
    by linarith
  then have "(of_int m :: rat) < of_int (2 ^ 53 + 1)"
    by simp
  then have "m < 2 ^ 53 + 1"
    by (simp only: of_int_less_iff)
  then have "m \<le> 2 ^ 53" by simp
  then have "(of_int m :: rat) \<le> of_int (2 ^ 53)"
    by (simp only: of_int_le_iff)
  then have "(of_int m :: rat) \<le> 2 ^ 53"
    by simp
  then have "of_int m * 2 powi (k - 52) \<le> 2 ^ 53 * (2::rat) powi (k - 52)"
    using P by (simp add: mult_right_mono)
  also have "\<dots> = 2 powi (k + 1)"
    using power_int_add [of "2::rat" 53 "k - 52"] by (simp add: add.commute)
  also have "\<dots> \<le> 2 powi 1023"
    using assms(4) by (intro power_int_increasing) simp_all
  also have "\<dots> < 2 powi 1024"
    by (intro power_int_strict_increasing) simp_all
  finally have "\<not> of_int m * (2::rat) powi (k - 52) \<ge> 2 powi 1024"
    by simp
  then show ?thesis
    using x il assms(3,5)
    by (simp add: binary64_def Let_def max_def del: power_int_numeral)
qed

lemma floor_rat_numeral: "\<lfloor>numeral a / numeral b :: rat\<rfloor> = numeral a div numeral b"
  by (metis floor_divide_of_int_eq of_int_numeral)



text \<open>
  Below \<open>2 ^ 1023\<close> a number rounds to a finite double, with a relative error of at
  most \<open>2 powi - 53\<close> or, for the subnormal numbers, an absolute error of at most
  \<open>2 powi - 1075\<close>.
\<close>

lemma binary64_error:
  assumes "\<bar>x\<bar> < 2 ^ 1023"
  shows "\<exists>y. binary64 x = Fin y \<and> \<bar>y - x\<bar> \<le> \<bar>x\<bar> / 2 ^ 53 + 1 / 2 ^ 1075"
proof (cases "x = 0")
  case True
  then show ?thesis by (simp add: binary64_def)
next
  case False
  define a where "a = \<bar>x\<bar>"
  define e where "e = max (ilog2 a) (- 1022) - 52"
  define m where "m = round_half_even (a / 2 powi e)"
  define y where "y = of_int m * (2::rat) powi e"
  from False have a: "0 < a" by (simp add: a_def)
  have P: "(0::rat) < 2 powi e" by simp
  have "\<bar>of_int m - a / 2 powi e\<bar> \<le> 1 / 2"
    unfolding m_def by (rule round_half_even_error)
  then have "\<bar>of_int m - a / 2 powi e\<bar> * 2 powi e \<le> 1 / 2 * 2 powi e"
    using P by (simp only: mult_le_cancel_right_pos)
  moreover have "\<bar>of_int m - a / 2 powi e\<bar> * 2 powi e = \<bar>y - a\<bar>"
  proof -
    have "\<bar>of_int m - a / 2 powi e\<bar> * 2 powi e = \<bar>(of_int m - a / 2 powi e) * 2 powi e\<bar>"
      using P by (simp add: abs_mult)
    also have "(of_int m - a / 2 powi e) * 2 powi e = y - a"
      using P by (simp add: y_def algebra_simps)
    finally show ?thesis .
  qed
  ultimately have err: "\<bar>y - a\<bar> \<le> 2 powi e / 2"
    by simp
  have half: "2 powi e / 2 \<le> a / 2 ^ 53 + 1 / 2 ^ 1075"
  proof (cases "- 1022 \<le> ilog2 a")
    case True
    then have "e = ilog2 a - 52" by (simp add: e_def)
    then have "(2::rat) powi e = 2 powi (ilog2 a) / 2 ^ 52"
      using power_int_diff [of "2::rat" "ilog2 a" 52] by simp
    moreover have "2 powi (ilog2 a) \<le> a"
      using a by (rule ilog2_bounds)
    ultimately have "2 powi e / 2 \<le> a / 2 ^ 53"
      by (simp add: field_simps)
    then show ?thesis by simp
  next
    case False
    then have "e = - 1074" by (simp add: e_def)
    then have "(2::rat) powi e / 2 = 1 / 2 ^ 1075"
      by (simp add: power_int_minus field_simps)
    then show ?thesis using a by simp
  qed
  have small: "y < 2 powi 1024"
  proof -
    from err half have "y \<le> a + (a / 2 ^ 53 + 1 / 2 ^ 1075)"
      by linarith
    also have "\<dots> < 2 ^ 1023 + (2 ^ 1021 + 2 ^ 1021)"
      using assms a by (intro add_strict_mono) (simp_all add: a_def field_simps)
    finally show ?thesis by simp
  qed
  have val: "binary64 x = Fin (if x > 0 then y else - y)"
    using False small
    by (simp add: binary64_def Let_def y_def m_def e_def a_def not_le)
  have "\<bar>(if x > 0 then y else - y) - x\<bar> = \<bar>y - a\<bar>"
    using False by (auto simp: a_def)
  with err half val show ?thesis
    by (auto simp: a_def)
qed


lemma binary64_error_u:
  assumes "\<bar>x\<bar> < 2 ^ 1023"
  shows "\<exists>y. binary64 x = Fin y \<and> \<bar>y - x\<bar> \<le> 4 * (\<bar>x\<bar> * (1 / 2 ^ 55)) + 1 / 2 ^ 55"
proof -
  from binary64_error [OF assms] obtain y where
    y: "binary64 x = Fin y" "\<bar>y - x\<bar> \<le> \<bar>x\<bar> / 2 ^ 53 + 1 / 2 ^ 1075"
    by blast
  have "(1::rat) / 2 ^ 1075 \<le> 1 / 2 ^ 55"
    by (intro divide_left_mono power_increasing) simp_all
  moreover have "\<bar>x\<bar> / 2 ^ 53 = 4 * (\<bar>x\<bar> * (1 / 2 ^ 55))"
    by simp
  ultimately have "\<bar>y - x\<bar> \<le> 4 * (\<bar>x\<bar> * (1 / 2 ^ 55)) + 1 / 2 ^ 55"
    using y(2) by linarith
  with y(1) show ?thesis by blast
qed

text \<open>
  The three roundings of the dialog, for a budget \<open>b\<close> and a percentage \<open>p\<close>.
\<close>

lemma split_bounds:
  assumes "1 \<le> b" "b \<le> 2 ^ 53" "0 \<le> p" "p \<le> 100"
  shows "\<exists>r cm pm. binary64 (p / 100) = Fin r \<and> binary64 (b * r) = Fin cm \<and>
           binary64 (b - cm) = Fin pm \<and>
           \<bar>cm - b * p / 100\<bar> \<le> b / 2 ^ 51 \<and>
           \<bar>pm - b * (1 - p / 100)\<bar> \<le> b / 2 ^ 50 \<and>
           \<bar>pm + cm - b\<bar> \<le> b / 2 ^ 51"
proof -
  define u where "u = (1::rat) / 2 ^ 55"
  define w where "w = b * u"
  define q where "q = p / 100"
  have u: "0 < u" "u \<le> 1" "14 * u \<le> 1"
    by (simp_all add: u_def)
  have b0: "0 \<le> b" using assms by simp
  have w: "u \<le> w"
    using mult_right_mono [OF assms(1), of u] u by (simp add: w_def)
  have w14: "14 * w \<le> b"
    using mult_left_mono [OF u(3) b0] by (simp add: w_def)
  have big: "(2::rat) ^ 55 < 2 ^ 1023"
    by (intro power_strict_increasing) simp_all
  have lim: "2 * b < 2 ^ 1023"
  proof -
    have "2 * b \<le> 2 * 2 ^ 53" using assms(2) by simp
    also have "\<dots> < (2::rat) ^ 55" by simp
    finally show ?thesis using big by simp
  qed
  have q: "0 \<le> q" "q \<le> 1"
    using assms by (simp_all add: q_def)
  then have "\<bar>q\<bar> < 2 ^ 1023"
    using lim assms(1) by linarith
  from binary64_error_u [OF this] obtain r where
    r: "binary64 q = Fin r" "\<bar>r - q\<bar> \<le> 4 * (\<bar>q\<bar> * u) + u"
    unfolding u_def by blast
  have "\<bar>q\<bar> * u \<le> 1 * u"
    using q u(1) by (intro mult_right_mono) simp_all
  with r(2) have r1: "\<bar>r - q\<bar> \<le> 5 * u"
    by simp
  with q u have r2: "\<bar>r\<bar> \<le> 2"
    by linarith
  have x2: "\<bar>b * r\<bar> \<le> 2 * b"
    using mult_left_mono [OF r2 b0] b0 by (simp add: abs_mult)
  with lim have "\<bar>b * r\<bar> < 2 ^ 1023"
    by linarith
  from binary64_error_u [OF this] obtain cm where
    cm: "binary64 (b * r) = Fin cm" "\<bar>cm - b * r\<bar> \<le> 4 * (\<bar>b * r\<bar> * u) + u"
    unfolding u_def by blast
  have "\<bar>b * r\<bar> * u \<le> (2 * b) * u"
    using x2 u(1) by (intro mult_right_mono) simp_all
  then have "\<bar>b * r\<bar> * u \<le> 2 * w"
    by (simp add: w_def)
  with cm(2) have d2: "\<bar>cm - b * r\<bar> \<le> 8 * w + u"
    by linarith
  have d1: "\<bar>b * r - b * q\<bar> \<le> 5 * w"
  proof -
    have "\<bar>b * r - b * q\<bar> = b * \<bar>r - q\<bar>"
      using b0 by (simp add: abs_mult flip: right_diff_distrib)
    also have "\<dots> \<le> b * (5 * u)"
      using r1 b0 by (rule mult_left_mono)
    finally show ?thesis by (simp add: w_def)
  qed
  from d1 d2 w have c1: "\<bar>cm - b * q\<bar> \<le> 14 * w"
    by linarith
  have bq: "0 \<le> b * q" "b * q \<le> b"
    using q b0 by (simp_all add: mult_left_le)
  with c1 w14 have x3: "\<bar>b - cm\<bar> \<le> 2 * b"
    by linarith
  with lim have "\<bar>b - cm\<bar> < 2 ^ 1023"
    by linarith
  from binary64_error_u [OF this] obtain pm where
    pm: "binary64 (b - cm) = Fin pm" "\<bar>pm - (b - cm)\<bar> \<le> 4 * (\<bar>b - cm\<bar> * u) + u"
    unfolding u_def by blast
  have "\<bar>b - cm\<bar> * u \<le> (2 * b) * u"
    using x3 u(1) by (intro mult_right_mono) simp_all
  then have "\<bar>b - cm\<bar> * u \<le> 2 * w"
    by (simp add: w_def)
  with pm(2) w have d3: "\<bar>pm - (b - cm)\<bar> \<le> 9 * w"
    by linarith
  have w0: "0 \<le> w" using u w by linarith
  have e16: "b / 2 ^ 51 = 16 * w" and e32: "b / 2 ^ 50 = 32 * w"
    by (simp_all add: w_def u_def)
  have bq': "b * p / 100 = b * q" "b * (1 - p / 100) = b - b * q"
    by (simp_all add: q_def algebra_simps)
  have c1': "\<bar>cm - b * p / 100\<bar> \<le> b / 2 ^ 51"
    unfolding bq' e16 using c1 w0 by linarith
  have c2': "\<bar>pm - b * (1 - p / 100)\<bar> \<le> b / 2 ^ 50"
    unfolding bq' e32 using c1 d3 w0 by linarith
  have c3': "\<bar>pm + cm - b\<bar> \<le> b / 2 ^ 51"
    unfolding e16 using d3 w0 by linarith
  from r(1) cm(1) pm(1) c1' c2' c3' show ?thesis
    unfolding q_def by blast
qed


text \<open>The doubles met at a budget of 100 with 7 percent and of 10000 with 10 percent.\<close>

lemma binary64_7: "binary64 7 = Fin 7"
  using binary64_normal [of 2 7 "7 * 2 ^ 50"]
  by (simp add: round_half_even_def Let_def power_int_minus floor_rat_numeral)

lemma binary64_10: "binary64 10 = Fin 10"
  using binary64_normal [of 3 10 "10 * 2 ^ 49"]
  by (simp add: round_half_even_def Let_def power_int_minus floor_rat_numeral)

lemma binary64_100: "binary64 100 = Fin 100"
  using binary64_normal [of 6 100 "100 * 2 ^ 46"]
  by (simp add: round_half_even_def Let_def power_int_minus floor_rat_numeral)

lemma binary64_10000: "binary64 10000 = Fin 10000"
  using binary64_normal [of 13 10000 "10000 * 2 ^ 39"]
  by (simp add: round_half_even_def Let_def power_int_minus floor_rat_numeral)

lemma binary64_7_percent: "binary64 (7 / 100) = Fin (5044031582654956 / 2 ^ 56)"
  using binary64_normal [of "- 4" "7 / 100" 5044031582654956]
  by (simp add: round_half_even_def Let_def power_int_minus floor_rat_numeral)

lemma binary64_10_percent: "binary64 (10 / 100) = Fin (3602879701896397 / 2 ^ 55)"
  using binary64_normal [of "- 4" "10 / 100" 7205759403792794]
  by (simp add: round_half_even_def Let_def power_int_minus floor_rat_numeral)

lemma binary64_commission_100_7:
  "binary64 (100 * (5044031582654956 / 2 ^ 56)) = Fin (7 + 1 / 2 ^ 50)"
  using binary64_normal [of 2 "100 * (5044031582654956 / 2 ^ 56)" "7 * 2 ^ 50 + 1"]
  by (simp add: round_half_even_def Let_def power_int_minus floor_rat_numeral)

lemma binary64_payment_100_7: "binary64 (100 - (7 + 1 / 2 ^ 50)) = Fin 93"
  using binary64_normal [of 6 "100 - (7 + 1 / 2 ^ 50)" "93 * 2 ^ 46"]
  by (simp add: round_half_even_def Let_def power_int_minus floor_rat_numeral)

lemma binary64_commission_10000_10:
  "binary64 (10000 * (3602879701896397 / 2 ^ 55)) = Fin 1000"
  using binary64_normal [of 9 "10000 * (3602879701896397 / 2 ^ 55)" "1000 * 2 ^ 43"]
  by (simp add: round_half_even_def Let_def power_int_minus floor_rat_numeral)

lemma binary64_9000: "binary64 9000 = Fin 9000"
  using binary64_normal [of 13 9000 "9000 * 2 ^ 39"]
  by (simp add: round_half_even_def Let_def power_int_minus floor_rat_numeral)

lemma commission_100_7:
  "commission (c\<lparr>c_budget := 100, c_platform_commission_percent := 7\<rparr>) = Fin (7 + 1 / 2 ^ 50)"
  using binary64_7 binary64_100 binary64_7_percent binary64_commission_100_7
  by (simp add: commission_def js_round_def)

lemma paymentAmount_100_7:
  "paymentAmount (c\<lparr>c_budget := 100, c_platform_commission_percent := 7\<rparr>) = Fin 93"
  using binary64_100 binary64_payment_100_7 commission_100_7 [of c]
  by (simp add: paymentAmount_def js_round_def)

lemma commission_10000_10:
  "commission (c\<lparr>c_budget := 10000, c_platform_commission_percent := 10\<rparr>) = Fin 1000"
  using binary64_10 binary64_10000 binary64_10_percent binary64_commission_10000_10
  by (simp add: commission_def js_round_def)

lemma paymentAmount_10000_10:
  "paymentAmount (c\<lparr>c_budget := 10000, c_platform_commission_percent := 10\<rparr>) = Fin 9000"
  using binary64_10000 binary64_9000 commission_10000_10 [of c]
  by (simp add: paymentAmount_def js_round_def)

text \<open>
  C5. The dialog computes the commission as budget times (percent / 100) and the payment
  as budget minus commission in double arithmetic, each operation rounding its result.
  For a budget between 1 and \<open>2 ^ 53\<close> and a percentage between 0 and 100, both doubles,
  the commission is within budget / \<open>2 ^ 51\<close> of budget times percent / 100, the payment
  within budget / \<open>2 ^ 50\<close> of budget times (1 - percent / 100), and their sum within
  budget / \<open>2 ^ 51\<close> of the budget. A budget of 10000 at 10 percent gives exactly 1000
  and 9000.
\<close>

theorem C5_commission_split:
  "(binary64 (c_budget c) = Fin (c_budget c) \<and>
    binary64 (c_platform_commission_percent c) = Fin (c_platform_commission_percent c) \<and>
    1 \<le> c_budget c \<and> c_budget c \<le> 2 ^ 53 \<and>
    0 \<le> c_platform_commission_percent c \<and> c_platform_commission_percent c \<le> 100 \<longrightarrow>
      (\<exists>cm pm. commission c = Fin cm \<and> paymentAmount c = Fin pm \<and>
         \<bar>cm - c_budget c * c_platform_commission_percent c / 100\<bar> \<le> c_budget c / 2 ^ 51 \<and>
         \<bar>pm - c_budget c * (1 - c_platform_commission_percent c / 100)\<bar> \<le> c_budget c / 2 ^ 50 \<and>
         \<bar>pm + cm - c_budget c\<bar> \<le> c_budget c / 2 ^ 51)) \<and>
   commission (c\<lparr>c_budget := 10000, c_platform_commission_percent := 10\<rparr>) = Fin 1000 \<and>
   paymentAmount (c\<lparr>c_budget := 10000, c_platform_commission_percent := 10\<rparr>) = Fin 9000"
proof (intro conjI impI)
  let ?b = "c_budget c" and ?p = "c_platform_commission_percent c"
  assume h: "binary64 ?b = Fin ?b \<and> binary64 ?p = Fin ?p \<and>
    1 \<le> ?b \<and> ?b \<le> 2 ^ 53 \<and> 0 \<le> ?p \<and> ?p \<le> 100"
  then have "1 \<le> ?b" "?b \<le> 2 ^ 53" "0 \<le> ?p" "?p \<le> 100"
    by simp_all
  from split_bounds [OF this] obtain r cm pm where
    s: "binary64 (?p / 100) = Fin r" "binary64 (?b * r) = Fin cm" "binary64 (?b - cm) = Fin pm"
      "\<bar>cm - ?b * ?p / 100\<bar> \<le> ?b / 2 ^ 51"
      "\<bar>pm - ?b * (1 - ?p / 100)\<bar> \<le> ?b / 2 ^ 50"
      "\<bar>pm + cm - ?b\<bar> \<le> ?b / 2 ^ 51"
    by blast
  from h s(1,2) have cm: "commission c = Fin cm"
    by (simp add: commission_def js_round_def)
  with h s(3) have pm: "paymentAmount c = Fin pm"
    by (simp add: paymentAmount_def js_round_def)
  from cm pm s(4,5,6)
  show "\<exists>cm pm. commission c = Fin cm \<and> paymentAmount c = Fin pm \<and>
         \<bar>cm - ?b * ?p / 100\<bar> \<le> ?b / 2 ^ 51 \<and>
         \<bar>pm - ?b * (1 - ?p / 100)\<bar> \<le> ?b / 2 ^ 50 \<and>
         \<bar>pm + cm - ?b\<bar> \<le> ?b / 2 ^ 51"
    by blast
next
  show "commission (c\<lparr>c_budget := 10000, c_platform_commission_percent := 10\<rparr>) = Fin 1000"
    by (rule commission_10000_10)
next
  show "paymentAmount (c\<lparr>c_budget := 10000, c_platform_commission_percent := 10\<rparr>) = Fin 9000"
    by (rule paymentAmount_10000_10)
qed

theorem C5_commission_split_witness:
  "binary64 100 = Fin 100 \<and> binary64 7 = Fin 7 \<and>
   commission (campaign0\<lparr>c_budget := 100, c_platform_commission_percent := 7\<rparr>)
     = Fin (7 + 1 / 2 ^ 50) \<and>
   paymentAmount (campaign0\<lparr>c_budget := 100, c_platform_commission_percent := 7\<rparr>) = Fin 93 \<and>
   \<bar>(7 + 1 / 2 ^ 50) - 100 * 7 / 100\<bar> \<le> (100 :: rat) / 2 ^ 51"
  using C5_commission_split [of "campaign0\<lparr>c_budget := 100, c_platform_commission_percent := 7\<rparr>"]
    binary64_100 binary64_7 commission_100_7 [of campaign0] paymentAmount_100_7 [of campaign0]
  by simp

text \<open>
  The amounts are not exact: at a budget of 100 with 7 percent the commission is
  \<open>7.000000000000001\<close>, the double above 7, not 7; the payment is 93, and the two
  values add up to \<open>100 + 1 / 2 ^ 50\<close>, not to the budget.
\<close>

theorem C5_rounding_counterexample:
  "commission (campaign0\<lparr>c_budget := 100, c_platform_commission_percent := 7\<rparr>)
     = Fin (7 + 1 / 2 ^ 50) \<and>
   (7 + 1 / 2 ^ 50 :: rat) \<noteq> 100 * 7 / 100 \<and>
   paymentAmount (campaign0\<lparr>c_budget := 100, c_platform_commission_percent := 7\<rparr>) = Fin 93 \<and>
   (93 + (7 + 1 / 2 ^ 50) :: rat) \<noteq> 100"
  using commission_100_7 [of campaign0] paymentAmount_100_7 [of campaign0]
  by simp

section \<open>Properties of the dialogs\<close>

text \<open>A dispute passes the schema only with a reason of at least ten characters.\<close>

lemma dispute_reason_validated:
  "\<not> f_confirmed d \<Longrightarrow> confirmSchema d = [] \<Longrightarrow> \<exists>r. f_reason d = Some r \<and> 10 \<le> length r"
  by (auto simp: confirmSchema_def split: option.splits if_splits)

text \<open>No call of the confirmation dialog carries a reason.\<close>

lemma confirm_call_without_reason:
  "call \<in> set (calls (ConfirmCampaignDialog_submit campaign d)) \<Longrightarrow>
   call = confirmCampaign (c_id campaign) (f_confirmed d) None"
  by (auto simp: ConfirmCampaignDialog_submit_def handleSubmit_def calls_def
      ConfirmCampaignDialog_onSubmit_def split: list.splits)

text \<open>
  C1. A seller who opens a dispute must enter a reason of at least ten characters, and
  that reason is to reach the lifecycle manager as the \<^verbatim>\<open>disputeReason\<close> argument
  of \<^verbatim>\<open>confirmCampaign\<close>. The schema does accept the dispute below, but
  \<^verbatim>\<open>onSubmit\<close> calls \<^verbatim>\<open>confirmCampaign(campaign.id, data.confirmed)\<close> with two
  arguments: the reason is dropped, and two disputes with different reasons make the
  same call.
\<close>

theorem C1_dispute_reason_not_passed:
  "confirmSchema \<lparr>f_confirmed = False, f_reason = Some ''Ad was never posted''\<rparr> = [] \<and>
   ConfirmCampaignDialog_submit campaign0
       \<lparr>f_confirmed = False, f_reason = Some ''Ad was never posted''\<rparr>
     = Inr [confirmCampaign ''c1'' False None] \<and>
   ConfirmCampaignDialog_submit campaign0
       \<lparr>f_confirmed = False, f_reason = Some ''The post was removed after an hour''\<rparr>
     = Inr [confirmCampaign ''c1'' False None]"
  by (simp add: ConfirmCampaignDialog_submit_def handleSubmit_def confirmSchema_def
      ConfirmCampaignDialog_onSubmit_def campaign0_def)

text \<open>
  C3. Every call of \<^verbatim>\<open>rejectCampaign\<close> that a submission of the reject dialog makes
  carries the reason entered, of 10 to 500 characters. A reason shorter than 10
  characters fails validation with the issue ``Reason must be at least 10 characters''
  on the field, and the submission makes no call.
\<close>

theorem C3_reject_reason_length:
  "(\<forall>call \<in> set (calls (RejectCampaignDialog_submit campaignId d)).
      call = rejectCampaign campaignId (r_reason d) \<and>
      10 \<le> length (r_reason d) \<and> length (r_reason d) \<le> 500) \<and>
   (length (r_reason d) < 10 \<longrightarrow>
      Issue [Key ''reason''] ''Reason must be at least 10 characters''
        \<in> set (rejectSchema d) \<and>
      (\<exists>issues. RejectCampaignDialog_submit campaignId d = Inl issues) \<and>
      calls (RejectCampaignDialog_submit campaignId d) = [])"
  by (auto simp: RejectCampaignDialog_submit_def handleSubmit_def rejectSchema_def calls_def
      RejectCampaignDialog_onSubmit_def split: list.splits if_splits)

theorem C3_reject_reason_length_witness:
  "calls (RejectCampaignDialog_submit ''c1'' \<lparr>r_reason = ''Not a good fit for my audience''\<rparr>)
     = [rejectCampaign ''c1'' ''Not a good fit for my audience''] \<and>
   length ''Not a good fit for my audience'' = 30 \<and>
   length ''too short'' < 10 \<and>
   calls (RejectCampaignDialog_submit ''c1'' \<lparr>r_reason = ''too short''\<rparr>) = []"
  using C3_reject_reason_length [of "''c1''" "\<lparr>r_reason = ''Not a good fit for my audience''\<rparr>"]
        C3_reject_reason_length [of "''c1''" "\<lparr>r_reason = ''too short''\<rparr>"]
  by (simp add: RejectCampaignDialog_submit_def handleSubmit_def rejectSchema_def calls_def
      RejectCampaignDialog_onSubmit_def)

text \<open>
  C4. In the submit dialog an empty proof URL, or one that is no URL, fails validation
  and no call is made; every call made carries a proof type among screenshot, post_link
  and other. In the lifecycle manager, as the specification describes it, an empty proof
  URL or another proof type is a \<open>ValidationError\<close>; on an accepted campaign a valid
  submission by the channel owner succeeds and sets \<^verbatim>\<open>owner_submitted_at\<close>; after
  that every further submission is an error, \<open>InvalidTransition\<close> when its payload is
  valid, so the timestamp and the proof are set once and never overwritten.
\<close>

theorem C4_submit_placement:
  "(f_placement_proof_url d = [] \<or> \<not> isUrl (f_placement_proof_url d) \<longrightarrow>
      (\<exists>issues. SubmitPlacementDialog_submit isUrl campaignId d = Inl issues) \<and>
      calls (SubmitPlacementDialog_submit isUrl campaignId d) = []) \<and>
   (\<forall>call \<in> set (calls (SubmitPlacementDialog_submit isUrl campaignId d)).
      call = submitCampaign campaignId (f_placement_proof_url d) (f_placement_proof_type d) \<and>
      f_placement_proof_type d \<in> {''screenshot'', ''post_link'', ''other''}) \<and>
   (proofUrl = [] \<or> proofType \<notin> {''screenshot'', ''post_link'', ''other''} \<longrightarrow>
      submitPlacement role c proofUrl proofType ownerNotes now = Inl ValidationError) \<and>
   (c_status c = ''accepted'' \<and> proofUrl \<noteq> [] \<and>
    proofType \<in> {''screenshot'', ''post_link'', ''other''} \<longrightarrow>
      (\<exists>c'. submitPlacement ChannelOwner c proofUrl proofType ownerNotes now = Inr c' \<and>
         c_status c' = ''in_progress'' \<and>
         c_owner_submitted_at c' = Some now \<and>
         c_placement_proof_url c' = Some proofUrl \<and>
         (\<forall>role2 url2 type2 notes2 now2.
            \<exists>err. submitPlacement role2 c' url2 type2 notes2 now2 = Inl err) \<and>
         (\<forall>url2 type2 notes2 now2.
            url2 \<noteq> [] \<and> type2 \<in> {''screenshot'', ''post_link'', ''other''} \<longrightarrow>
            submitPlacement ChannelOwner c' url2 type2 notes2 now2 = Inl InvalidTransition)))"
proof (intro conjI ballI impI)
  assume "f_placement_proof_url d = [] \<or> \<not> isUrl (f_placement_proof_url d)"
  then have ne: "submitSchema isUrl d \<noteq> []"
    by (auto simp: submitSchema_def)
  then show "\<exists>issues. SubmitPlacementDialog_submit isUrl campaignId d = Inl issues"
    by (simp add: SubmitPlacementDialog_submit_def handleSubmit_def split: list.splits)
  from ne show "calls (SubmitPlacementDialog_submit isUrl campaignId d) = []"
    by (simp add: SubmitPlacementDialog_submit_def handleSubmit_def calls_def split: list.splits)
next
  fix call
  assume h: "call \<in> set (calls (SubmitPlacementDialog_submit isUrl campaignId d))"
  then have e: "submitSchema isUrl d = []"
    by (auto simp: SubmitPlacementDialog_submit_def handleSubmit_def calls_def split: list.splits)
  from h e show "call = submitCampaign campaignId (f_placement_proof_url d) (f_placement_proof_type d)"
    by (simp add: SubmitPlacementDialog_submit_def handleSubmit_def calls_def
        SubmitPlacementDialog_onSubmit_def)
  from e show "f_placement_proof_type d \<in> {''screenshot'', ''post_link'', ''other''}"
    by (auto simp: submitSchema_def proof_types_def split: if_splits)
next
  assume "proofUrl = [] \<or> proofType \<notin> {''screenshot'', ''post_link'', ''other''}"
  then show "submitPlacement role c proofUrl proofType ownerNotes now = Inl ValidationError"
    by (auto simp: submitPlacement_def proof_types_def)
next
  assume h: "c_status c = ''accepted'' \<and> proofUrl \<noteq> [] \<and>
    proofType \<in> {''screenshot'', ''post_link'', ''other''}"
  then show "\<exists>c'. submitPlacement ChannelOwner c proofUrl proofType ownerNotes now = Inr c' \<and>
         c_status c' = ''in_progress'' \<and>
         c_owner_submitted_at c' = Some now \<and>
         c_placement_proof_url c' = Some proofUrl \<and>
         (\<forall>role2 url2 type2 notes2 now2.
            \<exists>err. submitPlacement role2 c' url2 type2 notes2 now2 = Inl err) \<and>
         (\<forall>url2 type2 notes2 now2.
            url2 \<noteq> [] \<and> type2 \<in> {''screenshot'', ''post_link'', ''other''} \<longrightarrow>
            submitPlacement ChannelOwner c' url2 type2 notes2 now2 = Inl InvalidTransition)"
    by (auto simp: submitPlacement_def proof_types_def)
qed

theorem C4_submit_placement_witness:
  "calls (SubmitPlacementDialog_submit sample_isUrl ''c1''
      \<lparr>f_placement_proof_url = [], f_placement_proof_type = ''screenshot'',
       f_owner_notes = Some []\<rparr>) = [] \<and>
   calls (SubmitPlacementDialog_submit sample_isUrl ''c1''
      \<lparr>f_placement_proof_url = ''https://x'', f_placement_proof_type = ''screenshot'',
       f_owner_notes = Some []\<rparr>) = [submitCampaign ''c1'' ''https://x'' ''screenshot''] \<and>
   submitPlacement ChannelOwner (campaign0\<lparr>c_status := ''accepted'', c_owner_submitted_at := None\<rparr>)
      [] ''screenshot'' None ''2024-01-02T09:00:00Z'' = Inl ValidationError \<and>
   submitPlacement ChannelOwner (campaign0\<lparr>c_status := ''accepted'', c_owner_submitted_at := None\<rparr>)
      ''https://x'' ''screenshot'' None ''2024-01-02T09:00:00Z''
     = Inr (campaign0\<lparr>c_owner_submitted_at := Some ''2024-01-02T09:00:00Z''\<rparr>) \<and>
   submitPlacement ChannelOwner (campaign0\<lparr>c_owner_submitted_at := Some ''2024-01-02T09:00:00Z''\<rparr>)
      ''https://y'' ''post_link'' None ''2024-01-03T09:00:00Z'' = Inl InvalidTransition"
  using C4_submit_placement [of
      "\<lparr>f_placement_proof_url = [], f_placement_proof_type = ''screenshot'', f_owner_notes = Some []\<rparr>"
      sample_isUrl "''c1''" "[]" "''screenshot''" ChannelOwner
      "campaign0\<lparr>c_status := ''accepted'', c_owner_submitted_at := None\<rparr>" None
      "''2024-01-02T09:00:00Z''"]
    C4_submit_placement [of
      "\<lparr>f_placement_proof_url = ''https://x'', f_placement_proof_type = ''screenshot'',
        f_owner_notes = Some []\<rparr>"
      sample_isUrl "''c1''" "''https://x''" "''screenshot''" ChannelOwner
      "campaign0\<lparr>c_status := ''accepted'', c_owner_submitted_at := None\<rparr>" None
      "''2024-01-02T09:00:00Z''"]
  by (simp add: SubmitPlacementDialog_submit_def handleSubmit_def calls_def submitSchema_def
      proof_types_def sample_isUrl_def SubmitPlacementDialog_onSubmit_def submitPlacement_def
      campaign0_def)

text \<open>The schema of the creation form has no issue only if the end date is after the start date.\<close>

lemma createCampaignSchema_empty:
  "createCampaignSchema isUrl parse d = [] \<Longrightarrow> end_after_start parse d"
  by (auto simp: createCampaignSchema_def split: if_splits)

lemma end_after_start_iff:
  "end_after_start parse d \<longleftrightarrow>
     (\<exists>s e. parse (f_start_date d) = Some s \<and> parse (f_end_date d) = Some e \<and> s < e)"
  by (auto simp: end_after_start_def split: option.splits)

text \<open>
  C6. Whenever a submission of the creation form calls \<^verbatim>\<open>createCampaign\<close>, both dates
  are valid and the end date is strictly after the start date. When the end date is equal
  to or earlier than the start date, validation reports ``End date must be after start
  date'' on the end date and the submission makes no call, so no campaign is created.
\<close>

theorem C6_end_after_start:
  "(\<forall>call \<in> set (calls (CreateCampaignForm_submit isUrl parse balance d)).
      \<exists>s e. parse (f_start_date d) = Some s \<and> parse (f_end_date d) = Some e \<and> s < e) \<and>
   (parse (f_start_date d) = Some s \<and> parse (f_end_date d) = Some e \<and> e \<le> s \<longrightarrow>
      Issue [Key ''end_date''] ''End date must be after start date''
        \<in> set (createCampaignSchema isUrl parse d) \<and>
      (\<exists>issues. CreateCampaignForm_submit isUrl parse balance d = Inl issues) \<and>
      calls (CreateCampaignForm_submit isUrl parse balance d) = [])"
proof (intro conjI ballI impI)
  fix call
  assume "call \<in> set (calls (CreateCampaignForm_submit isUrl parse balance d))"
  then have "createCampaignSchema isUrl parse d = []"
    by (auto simp: CreateCampaignForm_submit_def handleSubmit_def calls_def split: list.splits)
  then show "\<exists>s e. parse (f_start_date d) = Some s \<and> parse (f_end_date d) = Some e \<and> s < e"
    using createCampaignSchema_empty end_after_start_iff by blast
next
  assume h: "parse (f_start_date d) = Some s \<and> parse (f_end_date d) = Some e \<and> e \<le> s"
  then have n: "\<not> end_after_start parse d"
    by (simp add: end_after_start_def)
  then show i: "Issue [Key ''end_date''] ''End date must be after start date''
        \<in> set (createCampaignSchema isUrl parse d)"
    by (simp add: createCampaignSchema_def)
  then have ne: "createCampaignSchema isUrl parse d \<noteq> []"
    by auto
  then show "\<exists>issues. CreateCampaignForm_submit isUrl parse balance d = Inl issues"
    by (simp add: CreateCampaignForm_submit_def handleSubmit_def split: list.splits)
  from ne show "calls (CreateCampaignForm_submit isUrl parse balance d) = []"
    by (simp add: CreateCampaignForm_submit_def handleSubmit_def calls_def split: list.splits)
qed

theorem C6_end_after_start_witness:
  "calls (CreateCampaignForm_submit sample_isUrl sample_parse (Some 50000) form0)
     = [createCampaign
          \<lparr>p_channel_id = ''ch1'', p_budget = 10000,
           p_start_date = ''2024-01-01'', p_end_date = ''2024-01-08'',
           p_ad_format = post, p_creative_text = ''Spring sale: 20% off everything'',
           p_creative_images = None, p_creative_video_url = None\<rparr>] \<and>
   sample_parse (f_start_date (form0\<lparr>f_end_date := ''2024-01-01''\<rparr>)) = Some 1704067200000 \<and>
   sample_parse (f_end_date (form0\<lparr>f_end_date := ''2024-01-01''\<rparr>)) = Some 1704067200000 \<and>
   calls (CreateCampaignForm_submit sample_isUrl sample_parse (Some 50000)
            (form0\<lparr>f_end_date := ''2024-01-01''\<rparr>)) = []"
  using C6_end_after_start [of sample_isUrl sample_parse "Some 50000" form0]
        C6_end_after_start [of sample_isUrl sample_parse "Some 50000"
          "form0\<lparr>f_end_date := ''2024-01-01''\<rparr>" 1704067200000 1704067200000]
  by (simp add: CreateCampaignForm_submit_def handleSubmit_def calls_def createCampaignSchema_def
      creative_images_issues_def creative_video_url_issues_def end_after_start_def
      CreateCampaignForm_onSubmit_def hasEnoughBalance_def truthy_def sample_parse_def form0_def)

section \<open>Properties of the campaign views\<close>

text \<open>
  C2. For every user type and campaign, Accept and Reject are offered exactly to a
  channel owner on a pending campaign, Submit Placement exactly to a channel owner on an
  accepted one, Cancel exactly to a seller on a pending one, and Review and Confirm
  exactly to a seller on a campaign in progress whose \<^verbatim>\<open>owner_submitted_at\<close> is set
  (truthy). These are all the actions there are, so nothing is offered in any other
  case; in particular nothing is offered to an administrator, nor to anyone on a
  completed, rejected, cancelled or disputed campaign.
\<close>

theorem C2_actions_offered:
  "(Accept \<in> set (CampaignActions c u) \<longleftrightarrow> u = ''channel_owner'' \<and> c_status c = ''pending'') \<and>
   (Reject \<in> set (CampaignActions c u) \<longleftrightarrow> u = ''channel_owner'' \<and> c_status c = ''pending'') \<and>
   (SubmitPlacement \<in> set (CampaignActions c u) \<longleftrightarrow>
      u = ''channel_owner'' \<and> c_status c = ''accepted'') \<and>
   (CancelCampaign \<in> set (CampaignActions c u) \<longleftrightarrow> u = ''seller'' \<and> c_status c = ''pending'') \<and>
   (ReviewConfirm \<in> set (CampaignActions c u) \<longleftrightarrow>
      u = ''seller'' \<and> c_status c = ''in_progress'' \<and> truthy (c_owner_submitted_at c)) \<and>
   CampaignActions c ''admin'' = [] \<and>
   CampaignActions (c\<lparr>c_status := ''completed''\<rparr>) u = [] \<and>
   CampaignActions (c\<lparr>c_status := ''rejected''\<rparr>) u = [] \<and>
   CampaignActions (c\<lparr>c_status := ''cancelled''\<rparr>) u = [] \<and>
   CampaignActions (c\<lparr>c_status := ''disputed''\<rparr>) u = []"
  by (simp add: CampaignActions_def channel_owner_actions_def seller_actions_def)

text \<open>
  C8. On a disputed campaign the second step of the timeline is the step ``Accepted'' and
  it is not completed. Over all campaigns, the timeline has a completed step labelled
  ``Accepted'' exactly when the status is accepted, in_progress or completed. (For a
  rejected or cancelled campaign the second step is shown completed, but under the label
  ``Rejected'' or ``Cancelled''.)
\<close>

theorem C8_accepted_step:
  "(c_status c = ''disputed'' \<longrightarrow>
      s_id (CampaignTimeline c ! 1) = ''accepted'' \<and>
      s_label (CampaignTimeline c ! 1) = ''Accepted'' \<and>
      \<not> s_completed (CampaignTimeline c ! 1)) \<and>
   ((\<exists>s \<in> set (CampaignTimeline c). s_label s = ''Accepted'' \<and> s_completed s) \<longleftrightarrow>
      c_status c \<in> {''accepted'', ''in_progress'', ''completed''})"
  by (auto simp: CampaignTimeline_def initial_steps_def Let_def)

theorem C8_accepted_step_witness:
  "c_status (campaign0\<lparr>c_status := ''disputed''\<rparr>) = ''disputed'' \<and>
   s_label (CampaignTimeline (campaign0\<lparr>c_status := ''disputed''\<rparr>) ! 1) = ''Accepted'' \<and>
   \<not> s_completed (CampaignTimeline (campaign0\<lparr>c_status := ''disputed''\<rparr>) ! 1)"
  using C8_accepted_step [of "campaign0\<lparr>c_status := ''disputed''\<rparr>"]
  by simp

text \<open>The clamp maps every number but \<^verbatim>\<open>NaN\<close> into the interval from 0 to 100.\<close>

lemma clamp_range:
  "x \<noteq> NaN \<Longrightarrow> \<exists>p. Math_max (Fin 0) (Math_min (Fin 100) x) = Fin p \<and> 0 \<le> p \<and> p \<le> 100"
  by (cases x) auto

text \<open>
  C9. When both dates are valid and the end date is strictly after the start date, the
  progress of the card is a finite number between 0 and 100 at every current time. When
  the two dates are equal the total duration is zero, the quotient divides by it, and at
  the current time equal to that date the progress is \<^verbatim>\<open>NaN\<close>, outside the interval:
  the bound needs a precondition on the dates.
\<close>

theorem C9_progress_clamped:
  "(parse (c_start_date c) = Some s \<and> parse (c_end_date c) = Some e \<and> s < e \<longrightarrow>
      (\<exists>p. progress parse c now = Fin p \<and> 0 \<le> p \<and> p \<le> 100)) \<and>
   (parse (c_start_date c) = Some s \<and> parse (c_end_date c) = Some s \<longrightarrow>
      totalDuration parse c = Fin 0 \<and> progress parse c s = NaN)"
proof (intro conjI impI)
  assume "parse (c_start_date c) = Some s \<and> parse (c_end_date c) = Some e \<and> s < e"
  then have "js_mul (js_div (elapsed parse c now) (totalDuration parse c)) (Fin 100) \<noteq> NaN"
    by (simp add: elapsed_def totalDuration_def getTime_def)
  then show "\<exists>p. progress parse c now = Fin p \<and> 0 \<le> p \<and> p \<le> 100"
    unfolding progress_def by (rule clamp_range)
next
  assume "parse (c_start_date c) = Some s \<and> parse (c_end_date c) = Some s"
  then show "totalDuration parse c = Fin 0"
    by (simp add: totalDuration_def getTime_def)
next
  assume "parse (c_start_date c) = Some s \<and> parse (c_end_date c) = Some s"
  then show "progress parse c s = NaN"
    by (simp add: progress_def elapsed_def totalDuration_def getTime_def)
qed

theorem C9_progress_clamped_witness:
  "sample_parse (c_start_date campaign0) = Some 1704067200000 \<and>
   sample_parse (c_end_date campaign0) = Some 1704672000000 \<and>
   (1704067200000 :: int) < 1704672000000 \<and>
   progress sample_parse campaign0 1704326400000 = Fin (300 / 7) \<and>
   sample_parse (c_end_date (campaign0\<lparr>c_end_date := ''2024-01-01''\<rparr>)) = Some 1704067200000 \<and>
   progress sample_parse (campaign0\<lparr>c_end_date := ''2024-01-01''\<rparr>) 1704067200000 = NaN"
  using C9_progress_clamped [of sample_parse campaign0 1704067200000 1704672000000 1704326400000]
        C9_progress_clamped [of sample_parse "campaign0\<lparr>c_end_date := ''2024-01-01''\<rparr>"
          1704067200000 1704067200000 0]
  by (simp add: sample_parse_def campaign0_def progress_def elapsed_def totalDuration_def
      getTime_def)




section \<open>Properties of the dispute page\<close>

lemma item_value_decisions: "item_value v \<in> {''refund'', ''release_payment'', ''partial_refund''}"
  by (cases v) simp_all

text \<open>The decision stays one of the three values of the radio group.\<close>

lemma step_decision:
  "st_decision s \<in> {''refund'', ''release_payment'', ''partial_refund''} \<Longrightarrow>
   st_decision (fst (step parseFloat dispute campaign s ev))
     \<in> {''refund'', ''release_payment'', ''partial_refund''}"
  using item_value_decisions
  by (cases ev) (auto simp: step_def handleResolve_def split: option.splits)

lemma trim_nonempty: "trim t \<noteq> [] \<Longrightarrow> t \<noteq> []"
  by (auto simp: trim_def)

lemma step_calls:
  assumes "st_decision s \<in> {''refund'', ''release_payment'', ''partial_refund''}"
    and "call \<in> set (snd (step parseFloat dispute campaign s ev))"
  shows "\<exists>d p. dispute = Some d \<and> call = resolveDispute (d_id d) p \<and>
           p_decision p \<in> {''refund'', ''release_payment'', ''partial_refund''} \<and>
           (p_refund_amount p \<noteq> None) = (p_decision p = ''partial_refund'') \<and>
           trim (p_notes p) \<noteq> []"
  using assms
  by (cases ev) (auto simp: step_def handleResolve_def split: option.splits if_splits)

lemma run_calls:
  "st_decision s \<in> {''refund'', ''release_payment'', ''partial_refund''} \<Longrightarrow>
   call \<in> set (snd (run parseFloat dispute campaign s evs)) \<Longrightarrow>
   \<exists>d p. dispute = Some d \<and> call = resolveDispute (d_id d) p \<and>
           p_decision p \<in> {''refund'', ''release_payment'', ''partial_refund''} \<and>
           (p_refund_amount p \<noteq> None) = (p_decision p = ''partial_refund'') \<and>
           trim (p_notes p) \<noteq> []"
proof (induction evs arbitrary: s)
  case Nil
  then show ?case by simp
next
  case (Cons ev evs)
  obtain s' cs where st: "step parseFloat dispute campaign s ev = (s', cs)"
    by (cases "step parseFloat dispute campaign s ev")
  obtain s'' cs' where rn: "run parseFloat dispute campaign s' evs = (s'', cs')"
    by (cases "run parseFloat dispute campaign s' evs")
  from st Cons.prems(1)
  have inv: "st_decision s' \<in> {''refund'', ''release_payment'', ''partial_refund''}"
    using step_decision [of s parseFloat dispute campaign ev] by simp
  from Cons.prems(2) st rn have "call \<in> set cs \<or> call \<in> set cs'"
    by simp
  then show ?case
  proof
    assume "call \<in> set cs"
    with st have "call \<in> set (snd (step parseFloat dispute campaign s ev))" by simp
    with Cons.prems(1) show ?thesis by (rule step_calls)
  next
    assume "call \<in> set cs'"
    with rn have "call \<in> set (snd (run parseFloat dispute campaign s' evs))" by simp
    with inv show ?thesis by (rule Cons.IH)
  qed
qed

lemma find_dispute_id: "find_dispute disputes disputeId = Some d \<Longrightarrow> d_id d = disputeId"
  by (auto simp: find_dispute_def find_Some_iff split: option.splits)

text \<open>
  C7. Whatever happens on the page, every call it makes is
  \<^verbatim>\<open>resolveDispute\<close> keyed by the identifier of the dispute shown (the one of the
  URL), with a decision among refund, release_payment and partial_refund, with a refund
  amount exactly when the decision is partial_refund, and with notes that are not empty,
  nor blank.
\<close>

theorem C7_resolve_dispute_call:
  "\<forall>call \<in> set (DisputeDetailsPage parseFloat disputeId disputes campaign evs).
     \<exists>d p. find_dispute disputes disputeId = Some d \<and> d_id d = disputeId \<and>
       call = resolveDispute disputeId p \<and>
       p_decision p \<in> {''refund'', ''release_payment'', ''partial_refund''} \<and>
       (p_refund_amount p \<noteq> None) = (p_decision p = ''partial_refund'') \<and>
       p_notes p \<noteq> [] \<and> trim (p_notes p) \<noteq> []"
proof
  fix call
  assume "call \<in> set (DisputeDetailsPage parseFloat disputeId disputes campaign evs)"
  then have "call \<in> set (snd (run parseFloat (find_dispute disputes disputeId) campaign
                                initial_state evs))"
    by (simp add: DisputeDetailsPage_def)
  moreover have "st_decision initial_state \<in> {''refund'', ''release_payment'', ''partial_refund''}"
    by (simp add: initial_state_def)
  ultimately obtain d p where r: "find_dispute disputes disputeId = Some d"
      "call = resolveDispute (d_id d) p"
      "p_decision p \<in> {''refund'', ''release_payment'', ''partial_refund''}"
      "(p_refund_amount p \<noteq> None) = (p_decision p = ''partial_refund'')"
      "trim (p_notes p) \<noteq> []"
    using run_calls by blast
  from r(1) have "d_id d = disputeId" by (rule find_dispute_id)
  moreover from r(5) have "p_notes p \<noteq> []" by (rule trim_nonempty)
  ultimately show "\<exists>d p. find_dispute disputes disputeId = Some d \<and> d_id d = disputeId \<and>
       call = resolveDispute disputeId p \<and>
       p_decision p \<in> {''refund'', ''release_payment'', ''partial_refund''} \<and>
       (p_refund_amount p \<noteq> None) = (p_decision p = ''partial_refund'') \<and>
       p_notes p \<noteq> [] \<and> trim (p_notes p) \<noteq> []"
    using r by blast
qed

theorem C7_resolve_dispute_call_witness:
  "DisputeDetailsPage sample_parseFloat ''d1'' (Some [dispute0]) (Some campaign0)
     [ClickResolveDispute, SelectDecision Item_partial, ChangeRefundAmount ''2500'',
      ChangeNotes ''Half each'', ClickResolve, ClickResolve]
     = [resolveDispute ''d1''
          \<lparr>p_decision = ''partial_refund'', p_refund_amount = Some (Fin 2500),
           p_notes = ''Half each''\<rparr>]"
  using C7_resolve_dispute_call [of sample_parseFloat "''d1''" "Some [dispute0]" "Some campaign0"
     "[ClickResolveDispute, SelectDecision Item_partial, ChangeRefundAmount ''2500'',
      ChangeNotes ''Half each'', ClickResolve, ClickResolve]"]
  by (simp add: DisputeDetailsPage_def find_dispute_def dispute0_def campaign0_def
      initial_state_def step_def handleResolve_def trim_def is_space_def sample_parseFloat_def)

text \<open>
  The call is not keyed by the campaign's identifier: the dispute \<open>d1\<close> is about the
  campaign \<open>c1\<close>, and resolving it calls \<^verbatim>\<open>resolveDispute\<close> with \<open>d1\<close>.
\<close>

theorem C7_keyed_by_dispute_counterexample:
  "DisputeDetailsPage sample_parseFloat ''d1'' (Some [dispute0]) (Some campaign0)
     [ClickResolveDispute, ChangeNotes ''Refund the seller'', ClickResolve]
     = [resolveDispute ''d1''
          \<lparr>p_decision = ''refund'', p_refund_amount = None, p_notes = ''Refund the seller''\<rparr>] \<and>
   d_campaign_id dispute0 = ''c1'' \<and> c_id campaign0 = ''c1'' \<and> ''d1'' \<noteq> ''c1''"
  by (simp add: DisputeDetailsPage_def find_dispute_def dispute0_def campaign0_def
      initial_state_def step_def handleResolve_def trim_def is_space_def)

end
